theory Spec2Isabelle
  imports Complex_Main
begin

section \<open>Numbers and helpers of the simulator\<close>

text \<open>
  The simulator \<^verbatim>\<open>sim_soia_hivemq.py\<close> computes with Python \<^verbatim>\<open>float\<close> and
  \<^verbatim>\<open>int\<close>. Integers are modelled as \<^typ>\<open>int\<close>. Floats are modelled as
  \<^typ>\<open>real\<close>: every arithmetic operation is taken to be exact, there is no NaN and no
  infinity. The one arithmetic exception the tick can raise, a float division by zero,
  is a value of the type \<open>error\<close>.
\<close>

datatype error = ZeroDivisionError

text \<open>\<^verbatim>\<open>def clamp(v, a, b): return max(a, min(b, v))\<close>\<close>

definition clamp :: "real \<Rightarrow> real \<Rightarrow> real \<Rightarrow> real" where
  "clamp v a b = max a (min b v)"

text \<open>
  Python's one-argument \<^verbatim>\<open>round(x)\<close> on a float: the nearest integer, a tie going to
  the even neighbour.
\<close>

definition py_round :: "real \<Rightarrow> int" where
  "py_round x =
     (let f = \<lfloor>x\<rfloor>; r = x - of_int f
      in if r < 1 / 2 then f
         else if 1 / 2 < r then f + 1
         else if even f then f else f + 1)"

text \<open>
  Python's \<^verbatim>\<open>round(x, n)\<close>: the nearest multiple of \<open>10\<^sup>-\<^sup>n\<close>, a tie going to the even
  last digit.
\<close>

definition py_round_nd :: "real \<Rightarrow> nat \<Rightarrow> real" where
  "py_round_nd x n = of_int (py_round (x * 10 ^ n)) / 10 ^ n"

section \<open>Configuration and device state\<close>

text \<open>
  The process and engineering fields of \<^verbatim>\<open>Config\<close>. The connection fields (host,
  port, user, pwd, tls, qos, retain_stat, product, devices_csv) only parameterise the
  MQTT client and are left out.
\<close>

record config =
  period_s :: real
  q_span_m3min :: real
  C_mgm3 :: real
  rho_g_cm3 :: real
  E_A_cm3 :: real
  E_B_cm3 :: real
  tank_liters :: real
  max_spm :: real
  di_fail_prob :: real
  mismatch_noise_pct :: real

text \<open>\<^verbatim>\<open>class DeviceState\<close>; \<^verbatim>\<open>active\<close> is the Python string "A" or "B".\<close>

record device_state =
  active :: string
  no_detect_count :: int
  pulses_total_A :: int
  pulses_total_B :: int
  tank_l :: real
  flow_volts :: real
  level_volts :: real
  phase :: real

text \<open>
  \<^verbatim>\<open>DeviceState.__init__\<close>. The two random draws are parameters: \<open>u\<close> is
  \<^verbatim>\<open>random.uniform(-0.2, 0.2)\<close> and \<open>ph\<close> is \<^verbatim>\<open>random.uniform(0, 2*math.pi)\<close>.
\<close>

definition init_state :: "config \<Rightarrow> real \<Rightarrow> real \<Rightarrow> device_state" where
  "init_state cfg u ph =
     \<lparr> active = ''A'',
       no_detect_count = 0,
       pulses_total_A = 0,
       pulses_total_B = 0,
       tank_l = tank_liters cfg,
       flow_volts = 2.8 + u,
       level_volts = 4.6,
       phase = ph \<rparr>"

text \<open>
  What one pass of the device loop reads from outside: the three random draws, in the
  order the loop makes them, and whether the status refresh is due
  (\<^verbatim>\<open>now >= next_stat_time\<close>).
\<close>

record draws =
  flow_step :: real
  noise :: real
  di_roll :: real
  stat_due :: bool

section \<open>Published records\<close>

text \<open>The JSON objects of one device and one tick, without their timestamp.\<close>

record flow_msg =
  fl_volts :: real
  fl_Q_m3min :: real
  fl_Q_m3h :: real

record pulse_msg =
  pulses_total :: int
  pulses_period :: int
  rate_per_min :: real
  embolada_cm3 :: real

record qa_msg =
  qa_spm_teo :: real
  qa_spm_real :: real
  qa_mismatch_pct :: real
  under_dosing_due_to_limit :: bool

record level_msg =
  lv_volts :: real
  lv_percent :: real
  lv_tank_l :: real

record stat_msg =
  stat_active :: string
  stat_reason :: "string option"

record telemetry =
  tele_flow :: flow_msg
  tele_inj_sensor :: string
  tele_doserA :: pulse_msg
  tele_doserB :: pulse_msg
  tele_dosing_check :: qa_msg
  tele_level :: level_msg
  stat_active_doser :: "stat_msg option"

section \<open>The steps of one tick\<close>

text \<open>\<^verbatim>\<open>max(0.0, ((volts - 1.0) / 4.0) * cfg.q_span_m3min)\<close>\<close>

definition map_flow_volts_to_q_m3min :: "real \<Rightarrow> config \<Rightarrow> real" where
  "map_flow_volts_to_q_m3min volts cfg = max 0 (((volts - 1) / 4) * q_span_m3min cfg)"

text \<open>
  Lines 102-103: \<^verbatim>\<open>st.flow_volts += random.uniform(-0.06, 0.06)\<close>, then the clamp.
\<close>

definition advance_flow :: "draws \<Rightarrow> device_state \<Rightarrow> real" where
  "advance_flow d st = clamp (flow_volts st + flow_step d) 1 5"

text \<open>Line 113: \<^verbatim>\<open>E = cfg.E_A_cm3 if st.active == "A" else cfg.E_B_cm3\<close>\<close>

definition active_E :: "config \<Rightarrow> device_state \<Rightarrow> real" where
  "active_E cfg st = (if active st = ''A'' then E_A_cm3 cfg else E_B_cm3 cfg)"

text \<open>
  Line 114:
  \<^verbatim>\<open>spm_teo = 0.0 if E <= 0 else (Q_m3min * cfg.C_mgm3) / (1000.0 * cfg.rho_g_cm3 * E)\<close>.
  Python raises ZeroDivisionError when the divisor of a float division is zero.
\<close>

definition theoretical_spm :: "config \<Rightarrow> real \<Rightarrow> real \<Rightarrow> error + real" where
  "theoretical_spm cfg Q E =
     (if E \<le> 0 then Inr 0
      else if 1000 * rho_g_cm3 cfg * E = 0 then Inl ZeroDivisionError
      else Inr ((Q * C_mgm3 cfg) / (1000 * rho_g_cm3 cfg * E)))"

text \<open>Line 117: the rate with its multiplicative noise, before the mechanical limit.\<close>

definition noisy_spm :: "real \<Rightarrow> draws \<Rightarrow> real" where
  "noisy_spm spm_teo d = spm_teo * (1 + noise d)"

text \<open>
  Lines 118-121: the pair \<^verbatim>\<open>(spm_real, under_limit)\<close> after the saturation at
  \<^verbatim>\<open>cfg.max_spm\<close>.
\<close>

definition limit_spm :: "config \<Rightarrow> real \<Rightarrow> real \<times> bool" where
  "limit_spm cfg spm = (if max_spm cfg < spm then (max_spm cfg, True) else (spm, False))"

text \<open>
  Lines 123-124: \<^verbatim>\<open>max(0, int(round(spm_real * (cfg.period_s / 60.0))))\<close>
\<close>

definition pulses_this_period :: "config \<Rightarrow> real \<Rightarrow> int" where
  "pulses_this_period cfg spm_real = max 0 (py_round (spm_real * (period_s cfg / 60)))"

text \<open>Line 127: \<^verbatim>\<open>inj_fail = (random.random() < cfg.di_fail_prob)\<close>\<close>

definition inj_fail :: "config \<Rightarrow> draws \<Rightarrow> bool" where
  "inj_fail cfg d = (di_roll d < di_fail_prob cfg)"

text \<open>Lines 136-139: the update of \<^verbatim>\<open>st.no_detect_count\<close>.\<close>

definition count_no_detect :: "bool \<Rightarrow> int \<Rightarrow> device_state \<Rightarrow> device_state" where
  "count_no_detect fail pulses st =
     (if fail \<or> pulses = 0
      then st\<lparr>no_detect_count := no_detect_count st + pulses\<rparr>
      else st\<lparr>no_detect_count := 0\<rparr>)"

text \<open>
  Lines 141-147: the rotation. The result carries the locals \<^verbatim>\<open>rotated\<close> and
  \<^verbatim>\<open>reason\<close>.
\<close>

definition rotate :: "device_state \<Rightarrow> device_state \<times> bool \<times> string option" where
  "rotate st =
     (if 5 \<le> no_detect_count st
      then (st\<lparr>active := (if active st = ''A'' then ''B'' else ''A''), no_detect_count := 0\<rparr>,
            True, Some ''sensor_no_detection_after_5_pulses'')
      else (st, False, None))"

text \<open>Lines 150-153: the pulses of the tick go to the total of the active pump.\<close>

definition add_pulses :: "int \<Rightarrow> device_state \<Rightarrow> device_state" where
  "add_pulses pulses st =
     (if active st = ''A''
      then st\<lparr>pulses_total_A := pulses_total_A st + pulses\<rparr>
      else st\<lparr>pulses_total_B := pulses_total_B st + pulses\<rparr>)"

text \<open>Lines 156-168: the two pulse records, read after the totals are updated.\<close>

definition doserA_msg :: "config \<Rightarrow> int \<Rightarrow> real \<Rightarrow> device_state \<Rightarrow> pulse_msg" where
  "doserA_msg cfg pulses spm_real st =
     \<lparr> pulses_total = pulses_total_A st,
       pulses_period = (if active st = ''A'' then pulses else 0),
       rate_per_min = py_round_nd (if active st = ''A'' then spm_real else 0) 3,
       embolada_cm3 = E_A_cm3 cfg \<rparr>"

definition doserB_msg :: "config \<Rightarrow> int \<Rightarrow> real \<Rightarrow> device_state \<Rightarrow> pulse_msg" where
  "doserB_msg cfg pulses spm_real st =
     \<lparr> pulses_total = pulses_total_B st,
       pulses_period = (if active st = ''B'' then pulses else 0),
       rate_per_min = py_round_nd (if active st = ''B'' then spm_real else 0) 3,
       embolada_cm3 = E_B_cm3 cfg \<rparr>"

text \<open>
  Line 171:
  \<^verbatim>\<open>0.0 if spm_teo == 0 else round((abs(spm_real - spm_teo) / spm_teo) * 100.0, 1)\<close>
\<close>

definition mismatch_pct :: "real \<Rightarrow> real \<Rightarrow> real" where
  "mismatch_pct spm_teo spm_real =
     (if spm_teo = 0 then 0 else py_round_nd ((\<bar>spm_real - spm_teo\<bar> / spm_teo) * 100) 1)"

text \<open>
  Lines 181-182: \<^verbatim>\<open>consumed_cm3 = pulses_this_period * E\<close> and
  \<^verbatim>\<open>st.tank_l = max(0.0, st.tank_l - consumed_cm3 / 1000.0)\<close>
\<close>

definition consume :: "real \<Rightarrow> int \<Rightarrow> real \<Rightarrow> real" where
  "consume tank pulses E = max 0 (tank - (of_int pulses * E) / 1000)"

text \<open>Line 183: the level in percent, 0 when the capacity is not positive.\<close>

definition level_pct :: "config \<Rightarrow> real \<Rightarrow> real" where
  "level_pct cfg tank = 100 * (if 0 < tank_liters cfg then tank / tank_liters cfg else 0)"

text \<open>Line 184: \<^verbatim>\<open>1.0 + 4.0 * clamp(level_pct, 0.0, 100.0) / 100.0\<close>\<close>

definition level_signal :: "real \<Rightarrow> real" where
  "level_signal pct = 1 + 4 * clamp pct 0 100 / 100"

section \<open>One tick of one device\<close>

text \<open>
  The locals of the loop body that the flow and dosing sections (lines 102-124) leave
  behind: the clamped flow signal, the flow, the displacement \<^verbatim>\<open>E\<close> read at line 113,
  the theoretical rate, the rate before and after the mechanical limit, the limit flag
  and the pulse count.
\<close>

record locals =
  volts :: real
  Q_m3min :: real
  E :: real
  spm_teo :: real
  spm_noisy :: real
  spm_real :: real
  under_limit :: bool
  pulses :: int

text \<open>
  Lines 102-124. The only step that can raise is the division of line 114; the loop has
  no handler, so the exception ends the run.
\<close>

definition dosing :: "config \<Rightarrow> draws \<Rightarrow> device_state \<Rightarrow> error + locals" where
  "dosing cfg d st =
     (let fv = advance_flow d st;
          Q = map_flow_volts_to_q_m3min fv cfg;
          E0 = active_E cfg st
      in case theoretical_spm cfg Q E0 of
           Inl e \<Rightarrow> Inl e
         | Inr teo \<Rightarrow>
             (let pre = noisy_spm teo d;
                  lim = limit_spm cfg pre
              in Inr \<lparr> volts = fv, Q_m3min = Q, E = E0, spm_teo = teo, spm_noisy = pre,
                       spm_real = fst lim, under_limit = snd lim,
                       pulses = pulses_this_period cfg (fst lim) \<rparr>))"

text \<open>
  Lines 126-196, in the order of the source: sensor, counter, rotation, totals, pulse
  records, QA record, tank and level, status record. The displacement used for the tank
  is the local \<^verbatim>\<open>E\<close> of line 113, which the rotation does not touch.
\<close>

definition finish :: "config \<Rightarrow> draws \<Rightarrow> device_state \<Rightarrow> locals \<Rightarrow> device_state \<times> telemetry" where
  "finish cfg d st lo =
     (let st1 = st\<lparr>flow_volts := volts lo\<rparr>;
          fail = inj_fail cfg d;
          st2 = count_no_detect fail (pulses lo) st1;
          rot = rotate st2;
          st3 = fst rot;
          rotated = fst (snd rot);
          reason = snd (snd rot);
          st4 = add_pulses (pulses lo) st3;
          tank = consume (tank_l st4) (pulses lo) (E lo);
          pct = level_pct cfg tank;
          st5 = st4\<lparr>tank_l := tank, level_volts := level_signal pct\<rparr>
      in (st5,
          \<lparr> tele_flow =
              \<lparr> fl_volts = py_round_nd (volts lo) 3,
                fl_Q_m3min = py_round_nd (Q_m3min lo) 3,
                fl_Q_m3h = py_round_nd (Q_m3min lo * 60) 1 \<rparr>,
            tele_inj_sensor = (if fail then ''closed'' else ''open''),
            tele_doserA = doserA_msg cfg (pulses lo) (spm_real lo) st4,
            tele_doserB = doserB_msg cfg (pulses lo) (spm_real lo) st4,
            tele_dosing_check =
              \<lparr> qa_spm_teo = py_round_nd (spm_teo lo) 3,
                qa_spm_real = py_round_nd (spm_real lo) 3,
                qa_mismatch_pct = mismatch_pct (spm_teo lo) (spm_real lo),
                under_dosing_due_to_limit = under_limit lo \<rparr>,
            tele_level =
              \<lparr> lv_volts = py_round_nd (level_signal pct) 3,
                lv_percent = py_round_nd pct 2,
                lv_tank_l = py_round_nd tank 3 \<rparr>,
            stat_active_doser =
              (if rotated \<or> stat_due d
               then Some \<lparr> stat_active = active st5, stat_reason = reason \<rparr>
               else None) \<rparr>))"

text \<open>The body of the \<^verbatim>\<open>for dev, st in states.items()\<close> loop for one device.\<close>

definition tick :: "config \<Rightarrow> draws \<Rightarrow> device_state \<Rightarrow> error + device_state \<times> telemetry" where
  "tick cfg d st =
     (case dosing cfg d st of
        Inl e \<Rightarrow> Inl e
      | Inr lo \<Rightarrow> Inr (finish cfg d st lo))"

text \<open>
  A finite prefix of the \<^verbatim>\<open>while True\<close> loop, seen from one device: one tick for each
  element of the list of draws, stopping at the first exception.
\<close>

fun run_ticks :: "config \<Rightarrow> draws list \<Rightarrow> device_state \<Rightarrow> error + device_state" where
  "run_ticks cfg [] st = Inr st"
| "run_ticks cfg (d # ds) st =
     (case tick cfg d st of
        Inl e \<Rightarrow> Inl e
      | Inr r \<Rightarrow> run_ticks cfg ds (fst r))"

text \<open>
  The states a device can be in between ticks: the initial state, for the draws the
  constructor can make, and every state a tick produces from such a state, whatever the
  draws of the tick are.
\<close>

inductive reachable :: "config \<Rightarrow> device_state \<Rightarrow> bool" for cfg :: config where
  reachable_init:
    "- 0.2 \<le> u \<Longrightarrow> u \<le> 0.2 \<Longrightarrow> 0 \<le> ph \<Longrightarrow> ph \<le> 2 * pi
       \<Longrightarrow> reachable cfg (init_state cfg u ph)"
| reachable_tick:
    "reachable cfg st \<Longrightarrow> tick cfg d st = Inr (st', out) \<Longrightarrow> reachable cfg st'"

text \<open>The configuration the source uses when no environment variable is set.\<close>

definition default_config :: config where
  "default_config =
     \<lparr> period_s = 30, q_span_m3min = 30, C_mgm3 = 250, rho_g_cm3 = 0.815,
       E_A_cm3 = 0.25, E_B_cm3 = 0.25, tank_liters = 200, max_spm = 45,
       di_fail_prob = 0.02, mismatch_noise_pct = 0.03 \<rparr>"

text \<open>
  The value of \<^verbatim>\<open>st.no_detect_count\<close> between line 139 and line 141 of a tick: after
  the counter update and before the rotation test.
\<close>

definition counted :: "config \<Rightarrow> draws \<Rightarrow> device_state \<Rightarrow> locals \<Rightarrow> int" where
  "counted cfg d st lo = no_detect_count (count_no_detect (inj_fail cfg d) (pulses lo) st)"

section \<open>Concrete runs\<close>

text \<open>
  A configuration with two different displacements (\<^verbatim>\<open>E_B_CM3=0.5\<close>, every other variable
  at its default), an initial state with the flow signal at 2.95 V, and three ticks: one
  where the sensor fails and the pump rotates, one where the sensor is fine, and the second
  one again from the state the first leaves.
\<close>

definition ex_config :: config where
  "ex_config = default_config\<lparr>E_B_cm3 := 0.5\<rparr>"

definition ex_state :: device_state where
  "ex_state = init_state ex_config 0.15 0"

definition rot_draws :: draws where
  "rot_draws =
     \<lparr> flow_step = 0.05, noise = 0, di_roll = 0.01, stat_due = False \<rparr>"

definition rot_locals :: locals where
  "rot_locals =
     \<lparr> volts = 3, Q_m3min = 15, E = 1 / 4, spm_teo = 3000 / 163, spm_noisy = 3000 / 163,
       spm_real = 3000 / 163, under_limit = False, pulses = 9 \<rparr>"

definition rot_state :: device_state where
  "rot_state =
     \<lparr> active = ''B'', no_detect_count = 0, pulses_total_A = 0, pulses_total_B = 9,
       tank_l = 799991 / 4000, flow_volts = 3, level_volts = 999991 / 200000, phase = 0 \<rparr>"

definition rot_out :: telemetry where
  "rot_out =
     \<lparr> tele_flow = \<lparr> fl_volts = 3, fl_Q_m3min = 15, fl_Q_m3h = 900 \<rparr>,
       tele_inj_sensor = ''closed'',
       tele_doserA =
         \<lparr> pulses_total = 0, pulses_period = 0, rate_per_min = 0, embolada_cm3 = 1 / 4 \<rparr>,
       tele_doserB =
         \<lparr> pulses_total = 9, pulses_period = 9, rate_per_min = 3681 / 200,
           embolada_cm3 = 1 / 2 \<rparr>,
       tele_dosing_check =
         \<lparr> qa_spm_teo = 3681 / 200, qa_spm_real = 3681 / 200, qa_mismatch_pct = 0,
           under_dosing_due_to_limit = False \<rparr>,
       tele_level = \<lparr> lv_volts = 5, lv_percent = 100, lv_tank_l = 99999 / 500 \<rparr>,
       stat_active_doser =
         Some \<lparr> stat_active = ''B'',
                stat_reason = Some ''sensor_no_detection_after_5_pulses'' \<rparr> \<rparr>"

definition ok_draws :: draws where
  "ok_draws = \<lparr> flow_step = 0.05, noise = 0.02, di_roll = 0.5, stat_due = True \<rparr>"

definition ok_locals :: locals where
  "ok_locals =
     \<lparr> volts = 3, Q_m3min = 15, E = 1 / 4, spm_teo = 3000 / 163, spm_noisy = 3060 / 163,
       spm_real = 3060 / 163, under_limit = False, pulses = 9 \<rparr>"

definition ok_state :: device_state where
  "ok_state =
     \<lparr> active = ''A'', no_detect_count = 0, pulses_total_A = 9, pulses_total_B = 0,
       tank_l = 799991 / 4000, flow_volts = 3, level_volts = 999991 / 200000, phase = 0 \<rparr>"

definition ok_out :: telemetry where
  "ok_out =
     \<lparr> tele_flow = \<lparr> fl_volts = 3, fl_Q_m3min = 15, fl_Q_m3h = 900 \<rparr>,
       tele_inj_sensor = ''open'',
       tele_doserA =
         \<lparr> pulses_total = 9, pulses_period = 9, rate_per_min = 18773 / 1000,
           embolada_cm3 = 1 / 4 \<rparr>,
       tele_doserB =
         \<lparr> pulses_total = 0, pulses_period = 0, rate_per_min = 0, embolada_cm3 = 1 / 2 \<rparr>,
       tele_dosing_check =
         \<lparr> qa_spm_teo = 3681 / 200, qa_spm_real = 18773 / 1000, qa_mismatch_pct = 2,
           under_dosing_due_to_limit = False \<rparr>,
       tele_level = \<lparr> lv_volts = 5, lv_percent = 100, lv_tank_l = 99999 / 500 \<rparr>,
       stat_active_doser = Some \<lparr> stat_active = ''A'', stat_reason = None \<rparr> \<rparr>"

definition next_locals :: locals where
  "next_locals =
     \<lparr> volts = 61 / 20, Q_m3min = 123 / 8, E = 1 / 2, spm_teo = 3075 / 326,
       spm_noisy = 6273 / 652, spm_real = 6273 / 652, under_limit = False, pulses = 5 \<rparr>"

definition next_state :: device_state where
  "next_state =
     \<lparr> active = ''B'', no_detect_count = 0, pulses_total_A = 0, pulses_total_B = 14,
       tank_l = 799981 / 4000, flow_volts = 61 / 20, level_volts = 999981 / 200000,
       phase = 0 \<rparr>"

definition next_out :: telemetry where
  "next_out =
     \<lparr> tele_flow = \<lparr> fl_volts = 61 / 20, fl_Q_m3min = 123 / 8, fl_Q_m3h = 1845 / 2 \<rparr>,
       tele_inj_sensor = ''open'',
       tele_doserA =
         \<lparr> pulses_total = 0, pulses_period = 0, rate_per_min = 0, embolada_cm3 = 1 / 4 \<rparr>,
       tele_doserB =
         \<lparr> pulses_total = 14, pulses_period = 5, rate_per_min = 9621 / 1000,
           embolada_cm3 = 1 / 2 \<rparr>,
       tele_dosing_check =
         \<lparr> qa_spm_teo = 9433 / 1000, qa_spm_real = 9621 / 1000, qa_mismatch_pct = 2,
           under_dosing_due_to_limit = False \<rparr>,
       tele_level = \<lparr> lv_volts = 5, lv_percent = 100, lv_tank_l = 39999 / 200 \<rparr>,
       stat_active_doser = Some \<lparr> stat_active = ''B'', stat_reason = None \<rparr> \<rparr>"

text \<open>The same configuration with a low mechanical limit, and the second tick under it.\<close>

definition lim_config :: config where
  "lim_config = ex_config\<lparr>max_spm := 10\<rparr>"

definition lim_state :: device_state where
  "lim_state = init_state lim_config 0.15 0"

definition lim_locals :: locals where
  "lim_locals =
     \<lparr> volts = 3, Q_m3min = 15, E = 1 / 4, spm_teo = 3000 / 163, spm_noisy = 3060 / 163,
       spm_real = 10, under_limit = True, pulses = 5 \<rparr>"

definition lim_result :: "device_state \<times> telemetry" where
  "lim_result =
     (\<lparr> active = ''A'', no_detect_count = 0, pulses_total_A = 5, pulses_total_B = 0,
        tank_l = 159999 / 800, flow_volts = 3, level_volts = 199999 / 40000, phase = 0 \<rparr>,
      \<lparr> tele_flow = \<lparr> fl_volts = 3, fl_Q_m3min = 15, fl_Q_m3h = 900 \<rparr>,
        tele_inj_sensor = ''open'',
        tele_doserA =
          \<lparr> pulses_total = 5, pulses_period = 5, rate_per_min = 10, embolada_cm3 = 1 / 4 \<rparr>,
        tele_doserB =
          \<lparr> pulses_total = 0, pulses_period = 0, rate_per_min = 0, embolada_cm3 = 1 / 2 \<rparr>,
        tele_dosing_check =
          \<lparr> qa_spm_teo = 3681 / 200, qa_spm_real = 10, qa_mismatch_pct = 457 / 10,
            under_dosing_due_to_limit = True \<rparr>,
        tele_level = \<lparr> lv_volts = 5, lv_percent = 100, lv_tank_l = 199999 / 1000 \<rparr>,
        stat_active_doser = Some \<lparr> stat_active = ''A'', stat_reason = None \<rparr> \<rparr>)"

text \<open>Two degenerate configurations: a negative displacement for pump A, a zero density.\<close>

definition neg_config :: config where
  "neg_config = default_config\<lparr>E_A_cm3 := - 0.25\<rparr>"

definition neg_locals :: locals where
  "neg_locals =
     \<lparr> volts = 3, Q_m3min = 15, E = - (1 / 4), spm_teo = 0, spm_noisy = 0, spm_real = 0,
       under_limit = False, pulses = 0 \<rparr>"

definition zero_rho_config :: config where
  "zero_rho_config = default_config\<lparr>rho_g_cm3 := 0\<rparr>"

text \<open>
  Three more configurations, each with the fresh state at 2.95 V and the tick of
  \<open>ok_draws\<close>: a negative tank capacity (\<^verbatim>\<open>TANK_LITERS=-5\<close>); a negative displacement
  of pump A together with a negative mechanical limit and a negative period
  (\<^verbatim>\<open>E_A_CM3=-0.25\<close>, \<^verbatim>\<open>MAX_SPM=-10\<close>, \<^verbatim>\<open>PERIOD_S=-30\<close>); and a tank of capacity zero.
\<close>

definition negcap_config :: config where
  "negcap_config = default_config\<lparr>tank_liters := - 5\<rparr>"

definition negcap_state :: device_state where
  "negcap_state = init_state negcap_config 0.15 0"

definition negcap_result :: "device_state \<times> telemetry" where
  "negcap_result =
     (\<lparr> active = ''A'', no_detect_count = 0, pulses_total_A = 9, pulses_total_B = 0,
        tank_l = 0, flow_volts = 3, level_volts = 1, phase = 0 \<rparr>,
      \<lparr> tele_flow = \<lparr> fl_volts = 3, fl_Q_m3min = 15, fl_Q_m3h = 900 \<rparr>,
        tele_inj_sensor = ''open'',
        tele_doserA =
          \<lparr> pulses_total = 9, pulses_period = 9, rate_per_min = 18773 / 1000,
            embolada_cm3 = 1 / 4 \<rparr>,
        tele_doserB =
          \<lparr> pulses_total = 0, pulses_period = 0, rate_per_min = 0, embolada_cm3 = 1 / 4 \<rparr>,
        tele_dosing_check =
          \<lparr> qa_spm_teo = 3681 / 200, qa_spm_real = 18773 / 1000, qa_mismatch_pct = 2,
            under_dosing_due_to_limit = False \<rparr>,
        tele_level = \<lparr> lv_volts = 1, lv_percent = 0, lv_tank_l = 0 \<rparr>,
        stat_active_doser = Some \<lparr> stat_active = ''A'', stat_reason = None \<rparr> \<rparr>)"

definition backflow_config :: config where
  "backflow_config =
     default_config\<lparr>E_A_cm3 := - 0.25, max_spm := - 10, period_s := - 30\<rparr>"

definition backflow_state :: device_state where
  "backflow_state = init_state backflow_config 0.15 0"

definition backflow_result :: "device_state \<times> telemetry" where
  "backflow_result =
     (\<lparr> active = ''A'', no_detect_count = 0, pulses_total_A = 5, pulses_total_B = 0,
        tank_l = 160001 / 800, flow_volts = 3, level_volts = 5, phase = 0 \<rparr>,
      \<lparr> tele_flow = \<lparr> fl_volts = 3, fl_Q_m3min = 15, fl_Q_m3h = 900 \<rparr>,
        tele_inj_sensor = ''open'',
        tele_doserA =
          \<lparr> pulses_total = 5, pulses_period = 5, rate_per_min = - 10,
            embolada_cm3 = - (1 / 4) \<rparr>,
        tele_doserB =
          \<lparr> pulses_total = 0, pulses_period = 0, rate_per_min = 0, embolada_cm3 = 1 / 4 \<rparr>,
        tele_dosing_check =
          \<lparr> qa_spm_teo = 0, qa_spm_real = - 10, qa_mismatch_pct = 0,
            under_dosing_due_to_limit = True \<rparr>,
        tele_level = \<lparr> lv_volts = 5, lv_percent = 100, lv_tank_l = 200001 / 1000 \<rparr>,
        stat_active_doser = Some \<lparr> stat_active = ''A'', stat_reason = None \<rparr> \<rparr>)"

definition zerocap_config :: config where
  "zerocap_config = default_config\<lparr>tank_liters := 0\<rparr>"

definition zerocap_state :: device_state where
  "zerocap_state = init_state zerocap_config 0.15 0"

definition zerocap_result :: "device_state \<times> telemetry" where
  "zerocap_result =
     (\<lparr> active = ''A'', no_detect_count = 0, pulses_total_A = 9, pulses_total_B = 0,
        tank_l = 0, flow_volts = 3, level_volts = 1, phase = 0 \<rparr>,
      \<lparr> tele_flow = \<lparr> fl_volts = 3, fl_Q_m3min = 15, fl_Q_m3h = 900 \<rparr>,
        tele_inj_sensor = ''open'',
        tele_doserA =
          \<lparr> pulses_total = 9, pulses_period = 9, rate_per_min = 18773 / 1000,
            embolada_cm3 = 1 / 4 \<rparr>,
        tele_doserB =
          \<lparr> pulses_total = 0, pulses_period = 0, rate_per_min = 0, embolada_cm3 = 1 / 4 \<rparr>,
        tele_dosing_check =
          \<lparr> qa_spm_teo = 3681 / 200, qa_spm_real = 18773 / 1000, qa_mismatch_pct = 2,
            under_dosing_due_to_limit = False \<rparr>,
        tele_level = \<lparr> lv_volts = 1, lv_percent = 0, lv_tank_l = 0 \<rparr>,
        stat_active_doser = Some \<lparr> stat_active = ''A'', stat_reason = None \<rparr> \<rparr>)"

section \<open>The concrete runs, evaluated\<close>

lemma rot_dosing: "dosing ex_config rot_draws ex_state = Inr rot_locals"
  by code_simp

lemma rot_tick: "tick ex_config rot_draws ex_state = Inr (rot_state, rot_out)"
  by code_simp

lemma ok_dosing: "dosing ex_config ok_draws ex_state = Inr ok_locals"
  by code_simp

lemma ok_tick: "tick ex_config ok_draws ex_state = Inr (ok_state, ok_out)"
  by code_simp

lemma next_dosing: "dosing ex_config ok_draws rot_state = Inr next_locals"
  by code_simp

lemma next_tick: "tick ex_config ok_draws rot_state = Inr (next_state, next_out)"
  by code_simp

lemma lim_dosing: "dosing lim_config ok_draws lim_state = Inr lim_locals"
  by code_simp

lemma lim_tick: "tick lim_config ok_draws lim_state = Inr (fst lim_result, snd lim_result)"
  by code_simp

lemma neg_dosing: "dosing neg_config rot_draws (init_state neg_config 0.15 0) = Inr neg_locals"
  by code_simp

lemma zero_rho_dosing:
  "dosing zero_rho_config rot_draws (init_state zero_rho_config 0.15 0) = Inl ZeroDivisionError"
  by code_simp

lemma ex_reachable: "reachable ex_config ex_state"
  unfolding ex_state_def by (rule reachable_init) simp_all

lemma lim_reachable: "reachable lim_config lim_state"
  unfolding lim_state_def by (rule reachable_init) simp_all

lemma negcap_reachable: "reachable negcap_config negcap_state"
  unfolding negcap_state_def by (rule reachable_init) simp_all

lemma negcap_tick:
  "tick negcap_config ok_draws negcap_state = Inr (fst negcap_result, snd negcap_result)"
  by code_simp

lemma backflow_reachable: "reachable backflow_config backflow_state"
  unfolding backflow_state_def by (rule reachable_init) simp_all

lemma backflow_tick:
  "tick backflow_config ok_draws backflow_state = Inr (fst backflow_result, snd backflow_result)"
  by code_simp

lemma zerocap_reachable: "reachable zerocap_config zerocap_state"
  unfolding zerocap_state_def by (rule reachable_init) simp_all

lemma zerocap_dosing: "dosing zerocap_config ok_draws zerocap_state = Inr ok_locals"
  by code_simp

lemma zerocap_tick:
  "tick zerocap_config ok_draws zerocap_state = Inr (fst zerocap_result, snd zerocap_result)"
  by code_simp

lemma rot_run: "run_ticks ex_config [rot_draws] ex_state = Inr rot_state"
  by (simp add: rot_tick)

section \<open>What a successful tick computes\<close>

lemma pulses_this_period_nonneg: "0 \<le> pulses_this_period cfg x"
  by (simp add: pulses_this_period_def)

lemma dosing_Inr:
  assumes "dosing cfg d st = Inr lo"
  shows "volts lo = advance_flow d st"
    and "Q_m3min lo = map_flow_volts_to_q_m3min (advance_flow d st) cfg"
    and "E lo = active_E cfg st"
    and "theoretical_spm cfg (Q_m3min lo) (E lo) = Inr (spm_teo lo)"
    and "spm_noisy lo = spm_teo lo * (1 + noise d)"
    and "spm_real lo = (if max_spm cfg < spm_noisy lo then max_spm cfg else spm_noisy lo)"
    and "under_limit lo = (max_spm cfg < spm_noisy lo)"
    and "pulses lo = pulses_this_period cfg (spm_real lo)"
  using assms
  by (auto simp: dosing_def Let_def noisy_spm_def limit_spm_def split: sum.splits if_splits)

lemma pulses_nonneg: "dosing cfg d st = Inr lo \<Longrightarrow> 0 \<le> pulses lo"
  by (simp add: dosing_Inr(8) pulses_this_period_nonneg)

lemma tick_Inr:
  assumes "tick cfg d st = Inr (st', out)" and "dosing cfg d st = Inr lo"
  shows "st' = fst (finish cfg d st lo)" and "out = snd (finish cfg d st lo)"
  using assms by (simp_all add: tick_def)

lemma tick_Inr_ex:
  assumes "tick cfg d st = Inr r"
  obtains lo where "dosing cfg d st = Inr lo" and "finish cfg d st lo = r"
  using assms by (auto simp: tick_def split: sum.splits)

text \<open>
  The tick raises only when the active displacement is positive and the density is zero;
  for every other configuration, state and draws it returns a state and its records.
\<close>

lemma dosing_raises_iff:
  "dosing cfg d st = Inl ZeroDivisionError \<longleftrightarrow> 0 < active_E cfg st \<and> rho_g_cm3 cfg = 0"
  by (auto simp: dosing_def Let_def theoretical_spm_def split: sum.splits if_splits)

lemma tick_returns:
  assumes "rho_g_cm3 cfg \<noteq> 0 \<or> active_E cfg st \<le> 0"
  shows "\<exists>lo. dosing cfg d st = Inr lo \<and> tick cfg d st = Inr (finish cfg d st lo)"
proof (cases "dosing cfg d st")
  case (Inl e)
  then have "dosing cfg d st = Inl ZeroDivisionError" by (cases e) simp
  with assms show ?thesis by (auto simp: dosing_raises_iff)
next
  case (Inr lo)
  then show ?thesis by (simp add: tick_def)
qed

lemma rotate_fields:
  "active (fst (rotate st)) =
     (if 5 \<le> no_detect_count st then (if active st = ''A'' then ''B'' else ''A'') else active st)"
  "no_detect_count (fst (rotate st)) = (if 5 \<le> no_detect_count st then 0 else no_detect_count st)"
  "pulses_total_A (fst (rotate st)) = pulses_total_A st"
  "pulses_total_B (fst (rotate st)) = pulses_total_B st"
  "tank_l (fst (rotate st)) = tank_l st"
  "flow_volts (fst (rotate st)) = flow_volts st"
  "fst (snd (rotate st)) = (5 \<le> no_detect_count st)"
  "snd (snd (rotate st)) =
     (if 5 \<le> no_detect_count st then Some ''sensor_no_detection_after_5_pulses'' else None)"
  by (simp_all add: rotate_def)

lemma count_no_detect_fields:
  "active (count_no_detect f p st) = active st"
  "pulses_total_A (count_no_detect f p st) = pulses_total_A st"
  "pulses_total_B (count_no_detect f p st) = pulses_total_B st"
  "tank_l (count_no_detect f p st) = tank_l st"
  "flow_volts (count_no_detect f p st) = flow_volts st"
  "no_detect_count (count_no_detect f p st) = (if f \<or> p = 0 then no_detect_count st + p else 0)"
  by (simp_all add: count_no_detect_def)

lemma add_pulses_fields:
  "active (add_pulses p st) = active st"
  "no_detect_count (add_pulses p st) = no_detect_count st"
  "tank_l (add_pulses p st) = tank_l st"
  "flow_volts (add_pulses p st) = flow_volts st"
  "pulses_total_A (add_pulses p st) =
     (if active st = ''A'' then pulses_total_A st + p else pulses_total_A st)"
  "pulses_total_B (add_pulses p st) =
     (if active st = ''A'' then pulses_total_B st else pulses_total_B st + p)"
  by (simp_all add: add_pulses_def)

lemma finish_state:
  "active (fst (finish cfg d st lo)) =
     (if 5 \<le> counted cfg d st lo then (if active st = ''A'' then ''B'' else ''A'') else active st)"
  "no_detect_count (fst (finish cfg d st lo)) =
     (if 5 \<le> counted cfg d st lo then 0 else counted cfg d st lo)"
  "tank_l (fst (finish cfg d st lo)) = consume (tank_l st) (pulses lo) (E lo)"
  "flow_volts (fst (finish cfg d st lo)) = volts lo"
  "level_volts (fst (finish cfg d st lo)) =
     level_signal (level_pct cfg (consume (tank_l st) (pulses lo) (E lo)))"
  "pulses_total_A (fst (finish cfg d st lo)) =
     (if active (fst (finish cfg d st lo)) = ''A''
      then pulses_total_A st + pulses lo else pulses_total_A st)"
  "pulses_total_B (fst (finish cfg d st lo)) =
     (if active (fst (finish cfg d st lo)) = ''A''
      then pulses_total_B st else pulses_total_B st + pulses lo)"
  by (simp_all add: finish_def Let_def counted_def add_pulses_fields rotate_fields
      count_no_detect_fields)

lemma finish_out:
  "stat_active_doser (snd (finish cfg d st lo)) =
     (if 5 \<le> counted cfg d st lo \<or> stat_due d
      then Some \<lparr> stat_active = active (fst (finish cfg d st lo)),
                  stat_reason = (if 5 \<le> counted cfg d st lo
                                 then Some ''sensor_no_detection_after_5_pulses'' else None) \<rparr>
      else None)"
  "under_dosing_due_to_limit (tele_dosing_check (snd (finish cfg d st lo))) = under_limit lo"
  "qa_mismatch_pct (tele_dosing_check (snd (finish cfg d st lo))) =
     mismatch_pct (spm_teo lo) (spm_real lo)"
  "tele_inj_sensor (snd (finish cfg d st lo)) = (if inj_fail cfg d then ''closed'' else ''open'')"
  "tele_doserA (snd (finish cfg d st lo)) =
     \<lparr> pulses_total = pulses_total_A (fst (finish cfg d st lo)),
       pulses_period = (if active (fst (finish cfg d st lo)) = ''A'' then pulses lo else 0),
       rate_per_min =
         py_round_nd (if active (fst (finish cfg d st lo)) = ''A'' then spm_real lo else 0) 3,
       embolada_cm3 = E_A_cm3 cfg \<rparr>"
  "tele_doserB (snd (finish cfg d st lo)) =
     \<lparr> pulses_total = pulses_total_B (fst (finish cfg d st lo)),
       pulses_period = (if active (fst (finish cfg d st lo)) = ''B'' then pulses lo else 0),
       rate_per_min =
         py_round_nd (if active (fst (finish cfg d st lo)) = ''B'' then spm_real lo else 0) 3,
       embolada_cm3 = E_B_cm3 cfg \<rparr>"
  by (simp_all add: finish_def Let_def counted_def add_pulses_fields rotate_fields
      count_no_detect_fields doserA_msg_def doserB_msg_def)

lemma py_round_nd_zero: "py_round_nd 0 n = 0"
  by (simp add: py_round_nd_def py_round_def)

section \<open>Invariants of the reachable states\<close>

lemma reachable_active: "reachable cfg st \<Longrightarrow> active st = ''A'' \<or> active st = ''B''"
proof (induction rule: reachable.induct)
  case (reachable_init u ph)
  show ?case by (simp add: init_state_def)
next
  case (reachable_tick st d st' out)
  from reachable_tick.hyps(2) obtain lo where "finish cfg d st lo = (st', out)"
    by (rule tick_Inr_ex)
  then have "st' = fst (finish cfg d st lo)" by simp
  with reachable_tick.IH show ?case by (auto simp: finish_state(1))
qed

lemma reachable_count:
  "reachable cfg st \<Longrightarrow> 0 \<le> no_detect_count st \<and> no_detect_count st \<le> 4"
proof (induction rule: reachable.induct)
  case (reachable_init u ph)
  show ?case by (simp add: init_state_def)
next
  case (reachable_tick st d st' out)
  from reachable_tick.hyps(2) obtain lo
    where lo: "dosing cfg d st = Inr lo" and "finish cfg d st lo = (st', out)"
    by (rule tick_Inr_ex)
  then have st': "st' = fst (finish cfg d st lo)" by simp
  have "0 \<le> pulses lo" using lo by (rule pulses_nonneg)
  with reachable_tick.IH have "0 \<le> counted cfg d st lo"
    by (simp add: counted_def count_no_detect_fields)
  then show ?case by (simp add: st' finish_state(2))
qed

lemma clamp_bounds: "a \<le> b \<Longrightarrow> a \<le> clamp v a b \<and> clamp v a b \<le> b"
  by (simp add: clamp_def)

lemma level_signal_bounds: "1 \<le> level_signal p \<and> level_signal p \<le> 5"
  using clamp_bounds [of 0 100 p] by (simp add: level_signal_def)

lemma advance_flow_bounds: "1 \<le> advance_flow d st \<and> advance_flow d st \<le> 5"
  using clamp_bounds [of 1 5 "flow_volts st + flow_step d"] by (simp add: advance_flow_def)

lemma reachable_signals:
  "reachable cfg st \<Longrightarrow>
     1 \<le> flow_volts st \<and> flow_volts st \<le> 5 \<and> 1 \<le> level_volts st \<and> level_volts st \<le> 5"
proof (induction rule: reachable.induct)
  case (reachable_init u ph)
  then show ?case by (simp add: init_state_def)
next
  case (reachable_tick st d st' out)
  from reachable_tick.hyps(2) obtain lo
    where lo: "dosing cfg d st = Inr lo" and "finish cfg d st lo = (st', out)"
    by (rule tick_Inr_ex)
  then have st': "st' = fst (finish cfg d st lo)" by simp
  show ?case
    using advance_flow_bounds [of d st] level_signal_bounds
    by (simp add: st' finish_state(4,5) dosing_Inr(1) [OF lo])
qed

lemma py_round_le: "py_round x \<le> \<lfloor>x\<rfloor> + 1"
  by (simp add: py_round_def Let_def)

lemma py_round_nonpos: "x \<le> 0 \<Longrightarrow> py_round x \<le> 0"
proof -
  assume x: "x \<le> 0"
  then have f: "\<lfloor>x\<rfloor> \<le> 0" by simp
  show ?thesis
  proof (cases "\<lfloor>x\<rfloor> = 0")
    case True
    then have "0 \<le> x" by (metis of_int_0 of_int_floor_le)
    with x have "x = 0" by simp
    then show ?thesis by (simp add: py_round_def)
  next
    case False
    with f have "\<lfloor>x\<rfloor> + 1 \<le> 0" by linarith
    moreover have "py_round x \<le> \<lfloor>x\<rfloor> + 1" by (rule py_round_le)
    ultimately show ?thesis by linarith
  qed
qed

text \<open>
  The volume a tick takes from the tank is not negative when both displacements are not
  negative. It is not negative either when the mechanical limit or the period is not
  negative: a negative displacement gives a theoretical rate of 0, and then pulses are
  issued only if the limit and the period are both negative.
\<close>

lemma consumed_nonneg:
  assumes "(0 \<le> E_A_cm3 cfg \<and> 0 \<le> E_B_cm3 cfg) \<or> 0 \<le> max_spm cfg \<or> 0 \<le> period_s cfg"
    and "dosing cfg d st = Inr lo"
  shows "0 \<le> of_int (pulses lo) * E lo"
proof (cases "0 \<le> E lo")
  case True
  moreover have "0 \<le> pulses lo" using assms(2) by (rule pulses_nonneg)
  ultimately show ?thesis by simp
next
  case False
  then have neg: "E lo < 0" by simp
  then have "\<not> (0 \<le> E_A_cm3 cfg \<and> 0 \<le> E_B_cm3 cfg)"
    by (auto simp: dosing_Inr(3) [OF assms(2)] active_E_def split: if_splits)
  with assms(1) have mp: "0 \<le> max_spm cfg \<or> 0 \<le> period_s cfg" by blast
  have teo: "spm_teo lo = 0"
    using dosing_Inr(4) [OF assms(2)] neg by (simp add: theoretical_spm_def)
  then have noisy: "spm_noisy lo = 0" by (simp add: dosing_Inr(5) [OF assms(2)])
  have lim: "spm_real lo = (if max_spm cfg < 0 then max_spm cfg else 0)"
    by (simp add: dosing_Inr(6) [OF assms(2)] noisy)
  have "spm_real lo * (period_s cfg / 60) \<le> 0"
  proof (cases "max_spm cfg < 0")
    case True
    with mp have "0 \<le> period_s cfg" by simp
    with True show ?thesis by (simp add: lim mult_le_0_iff)
  next
    case False
    then show ?thesis by (simp add: lim)
  qed
  then have "py_round (spm_real lo * (period_s cfg / 60)) \<le> 0" by (rule py_round_nonpos)
  then have "pulses lo = 0"
    by (simp add: dosing_Inr(8) [OF assms(2)] pulses_this_period_def)
  then show ?thesis by simp
qed

lemma reachable_tank_nonneg:
  assumes "0 \<le> tank_liters cfg"
  shows "reachable cfg st \<Longrightarrow> 0 \<le> tank_l st"
proof (induction rule: reachable.induct)
  case (reachable_init u ph)
  show ?case using assms by (simp add: init_state_def)
next
  case (reachable_tick st d st' out)
  from reachable_tick.hyps(2) obtain lo where "finish cfg d st lo = (st', out)"
    by (rule tick_Inr_ex)
  then have "st' = fst (finish cfg d st lo)" by simp
  then show ?case by (simp add: finish_state(3) consume_def)
qed

lemma reachable_tank_le:
  assumes "0 \<le> tank_liters cfg"
    and "(0 \<le> E_A_cm3 cfg \<and> 0 \<le> E_B_cm3 cfg) \<or> 0 \<le> max_spm cfg \<or> 0 \<le> period_s cfg"
  shows "reachable cfg st \<Longrightarrow> tank_l st \<le> tank_liters cfg"
proof (induction rule: reachable.induct)
  case (reachable_init u ph)
  show ?case by (simp add: init_state_def)
next
  case (reachable_tick st d st' out)
  from reachable_tick.hyps(2) obtain lo
    where lo: "dosing cfg d st = Inr lo" and "finish cfg d st lo = (st', out)"
    by (rule tick_Inr_ex)
  then have st': "st' = fst (finish cfg d st lo)" by simp
  have "0 \<le> of_int (pulses lo) * E lo" using assms(2) lo by (rule consumed_nonneg)
  with reachable_tick.IH assms(1) show ?case
    by (simp add: st' finish_state(3) consume_def)
qed

lemma run_ticks_reachable:
  "reachable cfg st \<Longrightarrow> run_ticks cfg ds st = Inr st1 \<Longrightarrow> reachable cfg st1"
proof (induction ds arbitrary: st)
  case Nil
  then show ?case by simp
next
  case (Cons d ds)
  from Cons.prems(2) obtain r
    where r: "tick cfg d st = Inr r" and rest: "run_ticks cfg ds (fst r) = Inr st1"
    by (auto split: sum.splits)
  from r have "tick cfg d st = Inr (fst r, snd r)" by simp
  with Cons.prems(1) have "reachable cfg (fst r)" by (rule reachable_tick)
  then show ?case using rest by (rule Cons.IH)
qed

lemma tick_totals_mono:
  assumes "tick cfg d st = Inr r"
  shows "pulses_total_A st \<le> pulses_total_A (fst r) \<and> pulses_total_B st \<le> pulses_total_B (fst r)"
proof -
  from assms obtain lo where lo: "dosing cfg d st = Inr lo" and r: "finish cfg d st lo = r"
    by (rule tick_Inr_ex)
  have "0 \<le> pulses lo" using lo by (rule pulses_nonneg)
  then show ?thesis by (simp add: r [symmetric] finish_state(6,7))
qed

lemma run_ticks_totals_mono:
  "run_ticks cfg ds st = Inr st1 \<Longrightarrow>
     pulses_total_A st \<le> pulses_total_A st1 \<and> pulses_total_B st \<le> pulses_total_B st1"
proof (induction ds arbitrary: st)
  case Nil
  then show ?case by simp
next
  case (Cons d ds)
  from Cons.prems obtain r
    where r: "tick cfg d st = Inr r" and rest: "run_ticks cfg ds (fst r) = Inr st1"
    by (auto split: sum.splits)
  from tick_totals_mono [OF r] Cons.IH [OF rest] show ?case by linarith
qed

section \<open>The claims\<close>

text \<open>
  C1. The claim: on a tick in which a rotation occurs, the tank consumption of the tick
  uses the displacement of the pump that is active after the rotation. The code at the
  tick of \<open>rot_draws\<close> from \<open>ex_state\<close>, where pump A (0.25 cm3) is active, the sensor
  fails and 9 pulses are issued: the pump rotates to B (0.5 cm3), the 9 pulses are added
  to the total of B and published as pulses of B, and the tank loses 9 times the
  displacement of A, not 9 times the displacement of B.
\<close>

theorem rotation_tick_keeps_old_displacement:
  "tick ex_config rot_draws ex_state = Inr (rot_state, rot_out) \<and>
   active ex_state = ''A'' \<and> active rot_state = ''B'' \<and>
   pulses_total_B rot_state = pulses_total_B ex_state + 9 \<and>
   pulses_period (tele_doserB rot_out) = 9 \<and>
   tank_l rot_state = consume (tank_l ex_state) 9 (E_A_cm3 ex_config) \<and>
   tank_l rot_state \<noteq> consume (tank_l ex_state) 9 (E_B_cm3 ex_config)"
  by (simp add: rot_tick) code_simp

text \<open>
  C2. In every reachable state exactly one of "A" and "B" is the active pump, before and
  after a tick. With \<open>c\<close> the counter after the update of lines 136-139: if \<open>5 \<le> c\<close> the
  active pump becomes the other one, the counter is 0 and the status record is published
  with the reason \<^verbatim>\<open>sensor_no_detection_after_5_pulses\<close>; otherwise the active pump and the
  counter \<open>c\<close> are left as they are, and the status record, published only when the refresh
  is due, carries no reason.
\<close>

theorem rotation_iff_threshold:
  assumes "reachable cfg st" and "dosing cfg d st = Inr lo" and "tick cfg d st = Inr (st', out)"
  shows "((active st = ''A'') \<noteq> (active st = ''B'')) \<and>
         ((active st' = ''A'') \<noteq> (active st' = ''B'')) \<and>
         (if 5 \<le> counted cfg d st lo
          then active st' \<noteq> active st \<and> no_detect_count st' = 0 \<and>
               stat_active_doser out =
                 Some \<lparr> stat_active = active st',
                        stat_reason = Some ''sensor_no_detection_after_5_pulses'' \<rparr>
          else active st' = active st \<and> no_detect_count st' = counted cfg d st lo \<and>
               stat_active_doser out =
                 (if stat_due d
                  then Some \<lparr> stat_active = active st, stat_reason = None \<rparr> else None))"
proof -
  have a: "active st = ''A'' \<or> active st = ''B''" using assms(1) by (rule reachable_active)
  have st': "st' = fst (finish cfg d st lo)" and out: "out = snd (finish cfg d st lo)"
    using assms(3,2) by (rule tick_Inr)+
  have act: "active st' =
      (if 5 \<le> counted cfg d st lo then (if active st = ''A'' then ''B'' else ''A'') else active st)"
    by (simp add: st' finish_state(1))
  have cnt: "no_detect_count st' = (if 5 \<le> counted cfg d st lo then 0 else counted cfg d st lo)"
    by (simp add: st' finish_state(2))
  have stat: "stat_active_doser out =
     (if 5 \<le> counted cfg d st lo \<or> stat_due d
      then Some \<lparr> stat_active = active st',
                  stat_reason = (if 5 \<le> counted cfg d st lo
                                 then Some ''sensor_no_detection_after_5_pulses'' else None) \<rparr>
      else None)"
    by (simp add: out st' finish_out(1))
  show ?thesis using a by (auto simp: act cnt stat)
qed

theorem rotation_iff_threshold_witness:
  "reachable ex_config ex_state \<and> dosing ex_config rot_draws ex_state = Inr rot_locals \<and>
   tick ex_config rot_draws ex_state = Inr (rot_state, rot_out) \<and>
   5 \<le> counted ex_config rot_draws ex_state rot_locals \<and>
   active ex_state = ''A'' \<and> active rot_state = ''B'' \<and> no_detect_count rot_state = 0 \<and>
   dosing ex_config ok_draws ex_state = Inr ok_locals \<and>
   tick ex_config ok_draws ex_state = Inr (ok_state, ok_out) \<and>
   \<not> 5 \<le> counted ex_config ok_draws ex_state ok_locals \<and>
   active ok_state = ''A'' \<and> no_detect_count ok_state = 0"
proof -
  have c1: "counted ex_config rot_draws ex_state rot_locals = 9" by code_simp
  have c2: "counted ex_config ok_draws ex_state ok_locals = 0" by code_simp
  have a: "active ex_state = ''A''" by (simp add: ex_state_def init_state_def)
  show ?thesis
    using rotation_iff_threshold [OF ex_reachable rot_dosing rot_tick]
      rotation_iff_threshold [OF ex_reachable ok_dosing ok_tick]
      ex_reachable rot_dosing rot_tick ok_dosing ok_tick
    by (auto simp: c1 c2 a)
qed

text \<open>
  C3. The counter update of a tick. If the sensor record of the tick is "closed" (FAIL) or
  the tick issued no pulse, the counter after the update is the counter before plus the
  pulses of the tick, and it is not smaller than before; if the sensor record is "open" (OK)
  and at least one pulse was issued, the counter after the update is 0. The sensor record is
  one of the two, and the pulse count is never negative.
\<close>

theorem no_detect_counter_update:
  assumes "dosing cfg d st = Inr lo" and "tick cfg d st = Inr (st', out)"
  shows "(tele_inj_sensor out = ''closed'' \<or> pulses lo = 0 \<longrightarrow>
            counted cfg d st lo = no_detect_count st + pulses lo \<and>
            no_detect_count st \<le> counted cfg d st lo) \<and>
         (tele_inj_sensor out = ''open'' \<and> 1 \<le> pulses lo \<longrightarrow> counted cfg d st lo = 0) \<and>
         (tele_inj_sensor out = ''closed'' \<or> tele_inj_sensor out = ''open'') \<and>
         0 \<le> pulses lo"
proof -
  have out: "out = snd (finish cfg d st lo)" using assms(2,1) by (rule tick_Inr(2))
  have p: "0 \<le> pulses lo" using assms(1) by (rule pulses_nonneg)
  have s: "tele_inj_sensor out = (if inj_fail cfg d then ''closed'' else ''open'')"
    by (simp add: out finish_out(4))
  show ?thesis using p by (auto simp: s counted_def count_no_detect_fields)
qed

theorem no_detect_counter_update_witness:
  "dosing ex_config rot_draws ex_state = Inr rot_locals \<and>
   tick ex_config rot_draws ex_state = Inr (rot_state, rot_out) \<and>
   tele_inj_sensor rot_out = ''closed'' \<and> pulses rot_locals = 9 \<and> no_detect_count ex_state = 0 \<and>
   counted ex_config rot_draws ex_state rot_locals = 9 \<and>
   dosing ex_config ok_draws ex_state = Inr ok_locals \<and>
   tick ex_config ok_draws ex_state = Inr (ok_state, ok_out) \<and>
   tele_inj_sensor ok_out = ''open'' \<and> pulses ok_locals = 9 \<and>
   counted ex_config ok_draws ex_state ok_locals = 0"
proof -
  have s1: "tele_inj_sensor rot_out = ''closed''" by (simp add: rot_out_def)
  have s2: "tele_inj_sensor ok_out = ''open''" by (simp add: ok_out_def)
  have p1: "pulses rot_locals = 9" by (simp add: rot_locals_def)
  have p2: "pulses ok_locals = 9" by (simp add: ok_locals_def)
  have n: "no_detect_count ex_state = 0" by (simp add: ex_state_def init_state_def)
  show ?thesis
    using no_detect_counter_update [OF rot_dosing rot_tick]
      no_detect_counter_update [OF ok_dosing ok_tick]
      rot_dosing rot_tick ok_dosing ok_tick
    by (simp add: s1 s2 p1 p2 n)
qed

text \<open>
  C4. In every reachable state, the initial one included, the flow signal and the level
  signal are between 1 V and 5 V, whatever the random draws of the ticks were.
\<close>

theorem signals_in_transducer_range:
  assumes "reachable cfg st"
  shows "1 \<le> flow_volts st \<and> flow_volts st \<le> 5 \<and> 1 \<le> level_volts st \<and> level_volts st \<le> 5"
  using assms by (rule reachable_signals)

theorem signals_in_transducer_range_witness:
  "reachable ex_config next_state \<and>
   1 \<le> flow_volts next_state \<and> flow_volts next_state \<le> 5 \<and>
   1 \<le> level_volts next_state \<and> level_volts next_state \<le> 5"
proof -
  have "reachable ex_config rot_state" using ex_reachable rot_tick by (rule reachable_tick)
  then have r: "reachable ex_config next_state" using next_tick by (rule reachable_tick)
  from signals_in_transducer_range [OF r] r show ?thesis by simp
qed

text \<open>
  C5, as stated, fails on the code. With a negative tank capacity the initial volume is
  negative, and the first tick leaves 0, which is above the capacity. With a negative
  displacement, a negative mechanical limit and a negative period a tick issues pulses that
  add to the tank, and the volume ends above the capacity.
\<close>

theorem tank_range_counterexample:
  "reachable negcap_config negcap_state \<and> tank_liters negcap_config = - 5 \<and>
   tank_l negcap_state = - 5 \<and>
   tick negcap_config ok_draws negcap_state = Inr (fst negcap_result, snd negcap_result) \<and>
   tank_l (fst negcap_result) = 0 \<and>
   \<not> tank_l (fst negcap_result) \<le> tank_liters negcap_config \<and>
   reachable backflow_config backflow_state \<and> tank_liters backflow_config = 200 \<and>
   tick backflow_config ok_draws backflow_state =
     Inr (fst backflow_result, snd backflow_result) \<and>
   tank_l (fst backflow_result) = 200.00125 \<and>
   \<not> tank_l (fst backflow_result) \<le> tank_liters backflow_config"
  by (simp add: negcap_reachable negcap_tick backflow_reachable backflow_tick)
     (simp add: negcap_result_def backflow_result_def negcap_state_def init_state_def
       negcap_config_def backflow_config_def default_config_def)

text \<open>
  C5, amended. Every tick leaves \<open>max 0 (tank - pulses * displacement / 1000)\<close> in the
  tank, the displacement being the local \<^verbatim>\<open>E\<close> of the tick, so the volume after a tick is
  never negative; one litre, 5000 pulses and 0.25 cm3 leave 0. When the tank capacity is
  not negative the volume of every reachable state, the initial one included, is not
  negative. When the volume a tick takes cannot be negative (both displacements not
  negative, or the mechanical limit not negative, or the period not negative) an empty tank
  stays empty, and with a capacity that is not negative the volume of every reachable state
  is at most the capacity, before and after the tick.
\<close>

theorem tank_consumption_clamped:
  assumes "dosing cfg d st = Inr lo" and "tick cfg d st = Inr (st', out)"
  shows "tank_l st' = max 0 (tank_l st - of_int (pulses lo) * E lo / 1000) \<and>
         (E lo = E_A_cm3 cfg \<or> E lo = E_B_cm3 cfg) \<and>
         0 \<le> tank_l st' \<and>
         consume 1 5000 0.25 = 0 \<and>
         (reachable cfg st \<and> 0 \<le> tank_liters cfg \<longrightarrow> 0 \<le> tank_l st) \<and>
         ((0 \<le> E_A_cm3 cfg \<and> 0 \<le> E_B_cm3 cfg) \<or> 0 \<le> max_spm cfg \<or> 0 \<le> period_s cfg \<longrightarrow>
            (tank_l st = 0 \<longrightarrow> tank_l st' = 0) \<and>
            (reachable cfg st \<and> 0 \<le> tank_liters cfg \<longrightarrow>
               tank_l st \<le> tank_liters cfg \<and> tank_l st' \<le> tank_liters cfg))"
proof -
  have st': "st' = fst (finish cfg d st lo)" using assms(2,1) by (rule tick_Inr(1))
  have eq: "tank_l st' = max 0 (tank_l st - of_int (pulses lo) * E lo / 1000)"
    by (simp add: st' finish_state(3) consume_def)
  have e: "E lo = E_A_cm3 cfg \<or> E lo = E_B_cm3 cfg"
    by (simp add: dosing_Inr(3) [OF assms(1)] active_E_def)
  have n: "0 \<le> tank_l st'" by (simp add: eq)
  have s: "consume 1 5000 0.25 = 0" by (simp add: consume_def)
  have lo: "0 \<le> tank_l st" if "reachable cfg st" and "0 \<le> tank_liters cfg"
    using that(2,1) by (rule reachable_tank_nonneg)
  have z: "tank_l st = 0 \<longrightarrow> tank_l st' = 0"
    if c: "(0 \<le> E_A_cm3 cfg \<and> 0 \<le> E_B_cm3 cfg) \<or> 0 \<le> max_spm cfg \<or> 0 \<le> period_s cfg"
  proof -
    have "0 \<le> of_int (pulses lo) * E lo" using c assms(1) by (rule consumed_nonneg)
    then show ?thesis by (simp add: eq)
  qed
  have u: "tank_l st \<le> tank_liters cfg \<and> tank_l st' \<le> tank_liters cfg"
    if c: "(0 \<le> E_A_cm3 cfg \<and> 0 \<le> E_B_cm3 cfg) \<or> 0 \<le> max_spm cfg \<or> 0 \<le> period_s cfg"
      and r: "reachable cfg st" and cap: "0 \<le> tank_liters cfg"
  proof -
    have "tank_l st \<le> tank_liters cfg" using cap c r by (rule reachable_tank_le)
    moreover have "reachable cfg st'" using r assms(2) by (rule reachable_tick)
    with cap c have "tank_l st' \<le> tank_liters cfg" by (rule reachable_tank_le)
    ultimately show ?thesis by simp
  qed
  from eq e n s lo z u show ?thesis by blast
qed

theorem tank_consumption_clamped_witness:
  "dosing ex_config ok_draws rot_state = Inr next_locals \<and>
   tick ex_config ok_draws rot_state = Inr (next_state, next_out) \<and>
   reachable ex_config rot_state \<and> 0 \<le> tank_liters ex_config \<and>
   0 \<le> E_A_cm3 ex_config \<and> 0 \<le> E_B_cm3 ex_config \<and>
   tank_l next_state = max 0 (tank_l rot_state - 5 * 0.5 / 1000) \<and>
   0 \<le> tank_l rot_state \<and> tank_l rot_state \<le> 200 \<and>
   0 \<le> tank_l next_state \<and> tank_l next_state \<le> 200 \<and>
   dosing zerocap_config ok_draws zerocap_state = Inr ok_locals \<and>
   tick zerocap_config ok_draws zerocap_state = Inr (fst zerocap_result, snd zerocap_result) \<and>
   reachable zerocap_config zerocap_state \<and> 0 \<le> tank_liters zerocap_config \<and>
   0 \<le> max_spm zerocap_config \<and>
   tank_l zerocap_state = 0 \<and> tank_l (fst zerocap_result) = 0"
proof -
  have r: "reachable ex_config rot_state" using ex_reachable rot_tick by (rule reachable_tick)
  have c: "0 \<le> tank_liters ex_config" "0 \<le> E_A_cm3 ex_config" "0 \<le> E_B_cm3 ex_config"
    "tank_liters ex_config = 200"
    by (simp_all add: ex_config_def default_config_def)
  have v: "E next_locals = 0.5" "pulses next_locals = 5"
    by (simp_all add: next_locals_def)
  have z: "0 \<le> tank_liters zerocap_config" "0 \<le> max_spm zerocap_config"
    "tank_l zerocap_state = 0"
    by (simp_all add: zerocap_config_def default_config_def zerocap_state_def init_state_def)
  show ?thesis
    using tank_consumption_clamped [OF next_dosing next_tick]
      tank_consumption_clamped [OF zerocap_dosing zerocap_tick]
      r c z next_dosing next_tick zerocap_dosing zerocap_tick zerocap_reachable
    by (simp add: v)
qed

text \<open>
  C6. The limit flag of a tick, as a local and as published in the QA record, is true
  exactly when the theoretical rate times one plus the noise exceeds \<^verbatim>\<open>max_spm\<close>; the
  actual rate is \<^verbatim>\<open>max_spm\<close> in that case and the noisy rate otherwise, and it never
  exceeds \<^verbatim>\<open>max_spm\<close>.
\<close>

theorem under_limit_iff_exceeds:
  assumes "dosing cfg d st = Inr lo" and "tick cfg d st = Inr (st', out)"
  shows "under_dosing_due_to_limit (tele_dosing_check out) =
           (max_spm cfg < spm_teo lo * (1 + noise d)) \<and>
         under_limit lo = (max_spm cfg < spm_teo lo * (1 + noise d)) \<and>
         spm_real lo = (if under_limit lo then max_spm cfg else spm_teo lo * (1 + noise d)) \<and>
         spm_real lo \<le> max_spm cfg"
proof -
  have out: "out = snd (finish cfg d st lo)" using assms(2,1) by (rule tick_Inr(2))
  have "under_dosing_due_to_limit (tele_dosing_check out) = under_limit lo"
    by (simp add: out finish_out(2))
  then show ?thesis
    using dosing_Inr(5,6,7) [OF assms(1)] by auto
qed

theorem under_limit_iff_exceeds_witness:
  "dosing lim_config ok_draws lim_state = Inr lim_locals \<and>
   tick lim_config ok_draws lim_state = Inr (fst lim_result, snd lim_result) \<and>
   under_dosing_due_to_limit (tele_dosing_check (snd lim_result)) \<and>
   max_spm lim_config < spm_teo lim_locals * (1 + noise ok_draws) \<and>
   spm_real lim_locals = max_spm lim_config"
  using under_limit_iff_exceeds [OF lim_dosing lim_tick] lim_dosing lim_tick
  by (simp add: lim_result_def lim_locals_def)

text \<open>
  C7, as stated, fails on the code: with a negative displacement the theoretical rate is 0
  and not the quotient of the formula, and with a zero density and a positive displacement
  the division raises.
\<close>

theorem theoretical_rate_counterexample:
  "dosing neg_config rot_draws (init_state neg_config 0.15 0) = Inr neg_locals \<and>
   E neg_locals = - 0.25 \<and> spm_teo neg_locals = 0 \<and>
   spm_teo neg_locals \<noteq>
     (Q_m3min neg_locals * C_mgm3 neg_config) / (1000 * rho_g_cm3 neg_config * E neg_locals) \<and>
   theoretical_spm zero_rho_config 15 0.25 = Inl ZeroDivisionError"
  by (simp add: neg_dosing) code_simp

text \<open>
  C7, amended. The theoretical rate is 0, and not an error, whenever the active displacement
  is zero or negative. For a positive displacement and a density other than zero it is
  \<open>(flow_rate * concentration) / (1000 * density * displacement)\<close>; for a positive
  displacement and a zero density the division raises ZeroDivisionError. For 0.25 cm3,
  250 mg/m3, 0.815 g/cm3 and 15 m3/min the rate is \<open>(15 * 250) / (1000 * 0.815 * 0.25)\<close>,
  which is 18.4 to one decimal.
\<close>

theorem theoretical_rate_guarded:
  "(E0 \<le> 0 \<longrightarrow> theoretical_spm cfg Q E0 = Inr 0) \<and>
   (0 < E0 \<and> rho_g_cm3 cfg \<noteq> 0 \<longrightarrow>
      theoretical_spm cfg Q E0 = Inr ((Q * C_mgm3 cfg) / (1000 * rho_g_cm3 cfg * E0))) \<and>
   (0 < E0 \<and> rho_g_cm3 cfg = 0 \<longrightarrow> theoretical_spm cfg Q E0 = Inl ZeroDivisionError) \<and>
   theoretical_spm default_config 15 0.25 = Inr ((15 * 250) / (1000 * 0.815 * 0.25)) \<and>
   \<bar>(15 * 250) / (1000 * 0.815 * 0.25) - 18.4\<bar> < (0.005 :: real)"
  by (simp add: theoretical_spm_def default_config_def)

theorem theoretical_rate_guarded_witness:
  "(0::real) \<le> 0 \<and> theoretical_spm default_config 15 0 = Inr 0 \<and>
   (0::real) < 0.25 \<and> rho_g_cm3 default_config \<noteq> 0 \<and>
   theoretical_spm default_config 15 0.25 = Inr (3000 / 163) \<and>
   rho_g_cm3 zero_rho_config = 0 \<and>
   theoretical_spm zero_rho_config 15 0.25 = Inl ZeroDivisionError"
  using theoretical_rate_guarded [of 0 default_config 15]
    theoretical_rate_guarded [of "0.25" default_config 15]
    theoretical_rate_guarded [of "0.25" zero_rho_config 15]
  by (simp add: default_config_def zero_rho_config_def)

text \<open>
  C8. The mismatch percentage published in the QA record of a tick is 0 when the
  theoretical rate is 0, and otherwise \<open>100 * \<bar>actual - theoretical\<bar> / theoretical\<close>
  rounded to one decimal, where the actual rate is the rate after the mechanical limit:
  the smaller of \<^verbatim>\<open>max_spm\<close> and the noisy rate.
\<close>

theorem mismatch_pct_formula:
  assumes "dosing cfg d st = Inr lo" and "tick cfg d st = Inr (st', out)"
  shows "qa_mismatch_pct (tele_dosing_check out) =
           (if spm_teo lo = 0 then 0
            else py_round_nd (100 * \<bar>spm_real lo - spm_teo lo\<bar> / spm_teo lo) 1) \<and>
         spm_real lo = min (max_spm cfg) (spm_teo lo * (1 + noise d))"
proof -
  have out: "out = snd (finish cfg d st lo)" using assms(2,1) by (rule tick_Inr(2))
  have q: "qa_mismatch_pct (tele_dosing_check out) = mismatch_pct (spm_teo lo) (spm_real lo)"
    by (simp add: out finish_out(3))
  have e: "(\<bar>spm_real lo - spm_teo lo\<bar> / spm_teo lo) * 100 =
      100 * \<bar>spm_real lo - spm_teo lo\<bar> / spm_teo lo"
    by simp
  have m: "spm_real lo = min (max_spm cfg) (spm_teo lo * (1 + noise d))"
    using dosing_Inr(5,6) [OF assms(1)] by (simp add: min_def)
  have "qa_mismatch_pct (tele_dosing_check out) =
      (if spm_teo lo = 0 then 0
       else py_round_nd (100 * \<bar>spm_real lo - spm_teo lo\<bar> / spm_teo lo) 1)"
    unfolding q mismatch_pct_def e ..
  then show ?thesis using m by (rule conjI)
qed

theorem mismatch_pct_formula_witness:
  "dosing lim_config ok_draws lim_state = Inr lim_locals \<and>
   tick lim_config ok_draws lim_state = Inr (fst lim_result, snd lim_result) \<and>
   spm_teo lim_locals \<noteq> 0 \<and>
   qa_mismatch_pct (tele_dosing_check (snd lim_result)) =
     py_round_nd (100 * \<bar>10 - 3000 / 163\<bar> / (3000 / 163)) 1 \<and>
   qa_mismatch_pct (tele_dosing_check (snd lim_result)) = 45.7"
  using mismatch_pct_formula [OF lim_dosing lim_tick] lim_dosing lim_tick
  by (simp add: lim_result_def lim_locals_def)

text \<open>
  C9. Along any run of ticks from a reachable state, and across one more tick, the pulse
  totals of A and of B do not decrease. The total of the pump that is not active after the
  rotation test of the tick is unchanged by the tick, and the pulse record of that pump
  reports 0 pulses and a rate of 0. Both records carry the total of their pump.
\<close>

theorem pulse_totals_monotone:
  assumes "reachable cfg st" and "run_ticks cfg ds st = Inr st1"
    and "dosing cfg d st1 = Inr lo" and "tick cfg d st1 = Inr (st2, out)"
  shows "pulses_total_A st \<le> pulses_total_A st1 \<and> pulses_total_A st1 \<le> pulses_total_A st2 \<and>
         pulses_total_B st \<le> pulses_total_B st1 \<and> pulses_total_B st1 \<le> pulses_total_B st2 \<and>
         (active st2 \<noteq> ''A'' \<longrightarrow>
            pulses_total_A st2 = pulses_total_A st1 \<and>
            pulses_period (tele_doserA out) = 0 \<and> rate_per_min (tele_doserA out) = 0) \<and>
         (active st2 \<noteq> ''B'' \<longrightarrow>
            pulses_total_B st2 = pulses_total_B st1 \<and>
            pulses_period (tele_doserB out) = 0 \<and> rate_per_min (tele_doserB out) = 0) \<and>
         pulses_total (tele_doserA out) = pulses_total_A st2 \<and>
         pulses_total (tele_doserB out) = pulses_total_B st2"
proof -
  have r1: "reachable cfg st1" using assms(1,2) by (rule run_ticks_reachable)
  then have "reachable cfg st2" using assms(4) by (rule reachable_tick)
  then have a: "active st2 = ''A'' \<or> active st2 = ''B''" by (rule reachable_active)
  have st2: "st2 = fst (finish cfg d st1 lo)" and out: "out = snd (finish cfg d st1 lo)"
    using assms(4,3) by (rule tick_Inr)+
  have p: "0 \<le> pulses lo" using assms(3) by (rule pulses_nonneg)
  have m: "pulses_total_A st \<le> pulses_total_A st1 \<and> pulses_total_B st \<le> pulses_total_B st1"
    using assms(2) by (rule run_ticks_totals_mono)
  have ta: "pulses_total_A st2 =
      (if active st2 = ''A'' then pulses_total_A st1 + pulses lo else pulses_total_A st1)"
    by (simp add: st2 finish_state(6))
  have tb: "pulses_total_B st2 =
      (if active st2 = ''A'' then pulses_total_B st1 else pulses_total_B st1 + pulses lo)"
    by (simp add: st2 finish_state(7))
  have ma: "tele_doserA out =
     \<lparr> pulses_total = pulses_total_A st2,
       pulses_period = (if active st2 = ''A'' then pulses lo else 0),
       rate_per_min = py_round_nd (if active st2 = ''A'' then spm_real lo else 0) 3,
       embolada_cm3 = E_A_cm3 cfg \<rparr>"
    by (simp add: out st2 finish_out(5))
  have mb: "tele_doserB out =
     \<lparr> pulses_total = pulses_total_B st2,
       pulses_period = (if active st2 = ''B'' then pulses lo else 0),
       rate_per_min = py_round_nd (if active st2 = ''B'' then spm_real lo else 0) 3,
       embolada_cm3 = E_B_cm3 cfg \<rparr>"
    by (simp add: out st2 finish_out(6))
  show ?thesis using a p m by (auto simp: ta tb ma mb py_round_nd_zero)
qed

theorem pulse_totals_monotone_witness:
  "reachable ex_config ex_state \<and> run_ticks ex_config [rot_draws] ex_state = Inr rot_state \<and>
   dosing ex_config ok_draws rot_state = Inr next_locals \<and>
   tick ex_config ok_draws rot_state = Inr (next_state, next_out) \<and>
   pulses_total_A ex_state = 0 \<and> pulses_total_A rot_state = 0 \<and> pulses_total_A next_state = 0 \<and>
   pulses_total_B ex_state = 0 \<and> pulses_total_B rot_state = 9 \<and> pulses_total_B next_state = 14 \<and>
   active next_state \<noteq> ''A'' \<and>
   pulses_period (tele_doserA next_out) = 0 \<and> rate_per_min (tele_doserA next_out) = 0"
proof -
  have v: "pulses_total_A ex_state = 0" "pulses_total_B ex_state = 0"
    "pulses_total_A rot_state = 0" "pulses_total_B rot_state = 9"
    "pulses_total_A next_state = 0" "pulses_total_B next_state = 14" "active next_state \<noteq> ''A''"
    by (simp_all add: ex_state_def init_state_def rot_state_def next_state_def)
  show ?thesis
    using pulse_totals_monotone [OF ex_reachable rot_run next_dosing next_tick]
      ex_reachable rot_run next_dosing next_tick
    by (simp add: v)
qed

text \<open>
  C10. In every reachable state, that is in every state seen between two ticks, the counter
  of pulses without detection is between 0 and 4. It is 0 in the initial state, and a tick
  whose counter update reaches 5 or more ends with the counter at 0.
\<close>

theorem no_detect_count_range:
  assumes "reachable cfg st"
  shows "0 \<le> no_detect_count st \<and> no_detect_count st \<le> 4 \<and>
         no_detect_count (init_state cfg u ph) = 0 \<and>
         (dosing cfg d st = Inr lo \<and> tick cfg d st = Inr (st', out) \<and>
          5 \<le> counted cfg d st lo \<longrightarrow> no_detect_count st' = 0)"
proof -
  have "0 \<le> no_detect_count st \<and> no_detect_count st \<le> 4"
    using assms by (rule reachable_count)
  moreover have "no_detect_count (init_state cfg u ph) = 0"
    by (simp add: init_state_def)
  moreover have "no_detect_count st' = 0"
    if "dosing cfg d st = Inr lo" and "tick cfg d st = Inr (st', out)"
      and "5 \<le> counted cfg d st lo"
  proof -
    have "st' = fst (finish cfg d st lo)" using that(2,1) by (rule tick_Inr(1))
    then show ?thesis using that(3) by (simp add: finish_state(2))
  qed
  ultimately show ?thesis by blast
qed

theorem no_detect_count_range_witness:
  "reachable ex_config ex_state \<and> dosing ex_config rot_draws ex_state = Inr rot_locals \<and>
   tick ex_config rot_draws ex_state = Inr (rot_state, rot_out) \<and>
   counted ex_config rot_draws ex_state rot_locals = 9 \<and>
   no_detect_count ex_state = 0 \<and> no_detect_count rot_state = 0"
proof -
  have c: "counted ex_config rot_draws ex_state rot_locals = 9" by code_simp
  have n: "no_detect_count ex_state = 0" by (simp add: ex_state_def init_state_def)
  show ?thesis
    using no_detect_count_range [OF ex_reachable, where d = rot_draws and lo = rot_locals
        and st' = rot_state and out = rot_out and u = "0.15" and ph = 0]
      ex_reachable rot_dosing rot_tick
    by (simp add: c n)
qed

end
